theory Spec2Isabelle
  imports Main
begin

section \<open>Python values\<close>

text \<open>
  A Python \<open>str\<close> is a sequence of Unicode code points, so strings are lists of
  code-point numbers (not bytes). \<open>lit\<close> turns an ASCII literal of the source into
  such a list.
\<close>

type_synonym codepoint = nat
type_synonym pystr = "codepoint list"

definition lit :: "string \<Rightarrow> pystr" where
  "lit s = map of_char s"

text \<open>
  The values \<open>response.json()\<close> can return: \<open>None\<close>, booleans, integers, floats,
  strings, lists and dicts with string keys. A dict keeps its insertion order, so it is
  an association list; its keys are distinct in every dict Python builds.
\<close>

datatype pyfloat = FFinite bool nat int | FInf bool | FNaN

datatype pyval =
    PNone
  | PBool bool
  | PInt int
  | PFloat pyfloat
  | PStr pystr
  | PList "pyval list"
  | PDict "(pystr \<times> pyval) list"

datatype py_error =
    KeyError pystr
  | TypeError
  | AttributeError
  | JSONDecodeError
  | ConnectionError
  | OSError
  | UnicodeEncodeError

text \<open>
  What the program takes from the interpreter and not from the repository: the case
  tables of the Unicode database (\<open>_PyUnicode_ToLowerFull\<close>, \<open>_PyUnicode_IsCased\<close>,
  \<open>_PyUnicode_IsCaseIgnorable\<close>), \<open>float.__repr__\<close>, and \<open>str()\<close> of a value that is
  not a string. They are parameters of the model.
\<close>

record builtins =
  to_lower_full :: "codepoint \<Rightarrow> pystr"
  is_cased :: "codepoint \<Rightarrow> bool"
  is_case_ignorable :: "codepoint \<Rightarrow> bool"
  float_repr :: "pyfloat \<Rightarrow> pystr"
  str_of :: "pyval \<Rightarrow> pystr"

section \<open>String methods\<close>

text \<open>
  \<open>s.replace(old, new)\<close>: every non-overlapping occurrence of \<open>old\<close>, scanning forward;
  an empty \<open>old\<close> matches in front of every character and at the end.
\<close>

function str_replace :: "pystr \<Rightarrow> pystr \<Rightarrow> pystr \<Rightarrow> pystr" where
  "str_replace old new [] = (if old = [] then new else [])"
| "str_replace old new (c # s) =
     (if old = [] then new @ c # str_replace old new s
      else if take (length old) (c # s) = old
        then new @ str_replace old new (drop (length old) (c # s))
      else c # str_replace old new s)"
  by pat_completeness auto
termination
  by (relation "measure (\<lambda>(old, new, s). length s)") (auto simp: neq_Nil_conv)

text \<open>
  \<open>s.lower()\<close> as CPython computes it: an ASCII string is lowered byte by byte;
  otherwise each code point is replaced by its full lowercase mapping, except capital
  sigma (U+03A3), which becomes final sigma (U+03C2) when a cased letter precedes
  it and none follows it, case-ignorable characters skipped, and small sigma (U+03C3)
  otherwise.
\<close>

definition ascii_lower :: "codepoint \<Rightarrow> codepoint" where
  "ascii_lower c = (if 0x41 \<le> c \<and> c \<le> 0x5A then c + 0x20 else c)"

definition final_sigma :: "builtins \<Rightarrow> pystr \<Rightarrow> pystr \<Rightarrow> bool" where
  "final_sigma B left right =
     (case dropWhile (is_case_ignorable B) (rev left) of
        [] \<Rightarrow> False
      | c # _ \<Rightarrow> is_cased B c \<and>
          (case dropWhile (is_case_ignorable B) right of
             [] \<Rightarrow> True
           | d # _ \<Rightarrow> \<not> is_cased B d))"

definition lower_ucs4 :: "builtins \<Rightarrow> pystr \<Rightarrow> codepoint \<Rightarrow> pystr \<Rightarrow> pystr" where
  "lower_ucs4 B left c right =
     (if c = 0x3A3 then [if final_sigma B left right then 0x3C2 else 0x3C3]
      else to_lower_full B c)"

fun lower_from :: "builtins \<Rightarrow> pystr \<Rightarrow> pystr \<Rightarrow> pystr" where
  "lower_from B left [] = []"
| "lower_from B left (c # right) =
     lower_ucs4 B left c right @ lower_from B (left @ [c]) right"

definition py_lower :: "builtins \<Rightarrow> pystr \<Rightarrow> pystr" where
  "py_lower B s =
     (if list_all (\<lambda>c. c < 0x80) s then map ascii_lower s else lower_from B [] s)"

section \<open>Operations on values\<close>

text \<open>\<open>v[k]\<close> with a string key: only a dict has string subscripts.\<close>

definition subscript :: "pyval \<Rightarrow> pystr \<Rightarrow> py_error + pyval" where
  "subscript v k =
     (case v of
        PDict kvs \<Rightarrow> (case map_of kvs k of None \<Rightarrow> Inl (KeyError k) | Some x \<Rightarrow> Inr x)
      | _ \<Rightarrow> Inl TypeError)"

text \<open>A replacement field \<open>{v}\<close> of an f-string: a string stands for itself.\<close>

definition py_format :: "builtins \<Rightarrow> pyval \<Rightarrow> pystr" where
  "py_format B v = (case v of PStr s \<Rightarrow> s | _ \<Rightarrow> str_of B v)"

text \<open>\<open>v.replace(' ', '_').lower()\<close>: only a string has these methods.\<close>

definition replace_lower :: "builtins \<Rightarrow> pyval \<Rightarrow> py_error + pystr" where
  "replace_lower B v =
     (case v of
        PStr s \<Rightarrow> Inr (py_lower B (str_replace (lit '' '') (lit ''_'') s))
      | _ \<Rightarrow> Inl AttributeError)"

text \<open>What a \<open>for\<close> loop iterates over: list elements, dict keys, characters.\<close>

definition py_iter :: "pyval \<Rightarrow> py_error + pyval list" where
  "py_iter v =
     (case v of
        PList xs \<Rightarrow> Inr xs
      | PDict kvs \<Rightarrow> Inr (map (\<lambda>kv. PStr (fst kv)) kvs)
      | PStr s \<Rightarrow> Inr (map (\<lambda>c. PStr [c]) s)
      | _ \<Rightarrow> Inl TypeError)"

text \<open>The truth value an \<open>if\<close> takes of a value.\<close>

fun truthy :: "pyval \<Rightarrow> bool" where
  "truthy PNone = False"
| "truthy (PBool b) = b"
| "truthy (PInt i) = (i \<noteq> 0)"
| "truthy (PFloat (FFinite _ m _)) = (m \<noteq> 0)"
| "truthy (PFloat _) = True"
| "truthy (PStr s) = (s \<noteq> [])"
| "truthy (PList xs) = (xs \<noteq> [])"
| "truthy (PDict kvs) = (kvs \<noteq> [])"

definition bind :: "py_error + 'a \<Rightarrow> ('a \<Rightarrow> py_error + 'b) \<Rightarrow> py_error + 'b" where
  "bind m f = (case m of Inl e \<Rightarrow> Inl e | Inr x \<Rightarrow> f x)"

section \<open>The mapper\<close>

text \<open>
  The dict display appended for one element of the input; its values are evaluated in
  the order written, so the first failing subscript or method call decides the error.
\<close>

definition schema_entry :: "builtins \<Rightarrow> pyval \<Rightarrow> py_error + pyval" where
  "schema_entry B emoji_data =
     bind (subscript emoji_data (lit ''emoji'')) (\<lambda>emoji.
     bind (subscript emoji_data (lit ''hexcode'')) (\<lambda>hexcode.
     bind (subscript emoji_data (lit ''annotation'')) (\<lambda>annotation1.
     bind (replace_lower B annotation1) (\<lambda>code.
     bind (subscript emoji_data (lit ''annotation'')) (\<lambda>description.
     bind (subscript emoji_data (lit ''annotation'')) (\<lambda>annotation2.
     bind (replace_lower B annotation2) (\<lambda>name.
       Inr (PDict
         [(lit ''emoji'', emoji),
          (lit ''entity'', PStr (lit ''&#x'' @ py_format B hexcode @ lit '';'')),
          (lit ''code'', PStr (lit '':'' @ code @ lit '':'')),
          (lit ''description'', description),
          (lit ''name'', PStr name),
          (lit ''semver'', PNone)]))))))))"

fun map_loop :: "builtins \<Rightarrow> pyval list \<Rightarrow> pyval list \<Rightarrow> py_error + pyval list" where
  "map_loop B [] mapped_emojis = Inr mapped_emojis"
| "map_loop B (emoji_data # rest) mapped_emojis =
     (case schema_entry B emoji_data of
        Inl e \<Rightarrow> Inl e
      | Inr d \<Rightarrow> map_loop B rest (mapped_emojis @ [d]))"

definition map_to_schema :: "builtins \<Rightarrow> pyval \<Rightarrow> py_error + pyval list" where
  "map_to_schema B emojis_data =
     (case py_iter emojis_data of
        Inl e \<Rightarrow> Inl e
      | Inr items \<Rightarrow> map_loop B items [])"

section \<open>The JSON encoder\<close>

text \<open>
  \<open>json.dump(obj, f, ensure_ascii=..., indent=...)\<close> of a decoded value. The text is
  the concatenation of the chunks the encoder yields.
\<close>

fun nat_digits :: "nat \<Rightarrow> pystr" where
  "nat_digits n =
     (if n < 10 then [0x30 + n] else nat_digits (n div 10) @ [0x30 + n mod 10])"

definition int_repr :: "int \<Rightarrow> pystr" where
  "int_repr i = (if i < 0 then 0x2D # nat_digits (nat (- i)) else nat_digits (nat i))"

definition hex_digit :: "nat \<Rightarrow> codepoint" where
  "hex_digit d = (if d < 10 then 0x30 + d else 0x61 + (d - 10))"

text \<open>\<open>'\\u{0:04x}'.format(n)\<close> for \<open>n < 0x10000\<close>.\<close>

definition u_escape :: "nat \<Rightarrow> pystr" where
  "u_escape n =
     [0x5C, 0x75, hex_digit (n div 4096 mod 16), hex_digit (n div 256 mod 16),
      hex_digit (n div 16 mod 16), hex_digit (n mod 16)]"

text \<open>
  One character of a string. Quote, backslash and the control characters below U+0020
  are always escaped; with \<open>ensure_ascii\<close> so is everything outside U+0020..U+007E, a
  code point above U+FFFF as a surrogate pair.
\<close>

definition escape_char :: "bool \<Rightarrow> codepoint \<Rightarrow> pystr" where
  "escape_char ensure_ascii c =
     (if c = 0x22 then [0x5C, 0x22]
      else if c = 0x5C then [0x5C, 0x5C]
      else if c = 0x08 then [0x5C, 0x62]
      else if c = 0x0C then [0x5C, 0x66]
      else if c = 0x0A then [0x5C, 0x6E]
      else if c = 0x0D then [0x5C, 0x72]
      else if c = 0x09 then [0x5C, 0x74]
      else if c < 0x20 then u_escape c
      else if ensure_ascii \<and> 0x7E < c then
        (if c < 0x10000 then u_escape c
         else u_escape (0xD800 + (c - 0x10000) div 1024 mod 1024)
            @ u_escape (0xDC00 + (c - 0x10000) mod 1024))
      else [c])"

definition encode_basestring :: "bool \<Rightarrow> pystr \<Rightarrow> pystr" where
  "encode_basestring ensure_ascii s =
     [0x22] @ concat (map (escape_char ensure_ascii) s) @ [0x22]"

definition floatstr :: "builtins \<Rightarrow> pyfloat \<Rightarrow> pystr" where
  "floatstr B f =
     (case f of
        FNaN \<Rightarrow> lit ''NaN''
      | FInf negative \<Rightarrow> (if negative then lit ''-Infinity'' else lit ''Infinity'')
      | FFinite _ _ _ \<Rightarrow> float_repr B f)"

definition newline_indent :: "nat option \<Rightarrow> nat \<Rightarrow> pystr" where
  "newline_indent indent level =
     (case indent of None \<Rightarrow> [] | Some n \<Rightarrow> 0x0A # replicate (n * level) 0x20)"

definition item_separator :: "nat option \<Rightarrow> nat \<Rightarrow> pystr" where
  "item_separator indent level =
     (case indent of
        None \<Rightarrow> lit '', ''
      | Some n \<Rightarrow> lit '','' @ newline_indent indent level)"

fun join :: "pystr \<Rightarrow> pystr list \<Rightarrow> pystr" where
  "join sep [] = []"
| "join sep [x] = x"
| "join sep (x # y # ys) = x @ sep @ join sep (y # ys)"

fun iterencode :: "builtins \<Rightarrow> bool \<Rightarrow> nat option \<Rightarrow> nat \<Rightarrow> pyval \<Rightarrow> pystr" where
  "iterencode B ea indent level PNone = lit ''null''"
| "iterencode B ea indent level (PBool b) = (if b then lit ''true'' else lit ''false'')"
| "iterencode B ea indent level (PInt i) = int_repr i"
| "iterencode B ea indent level (PFloat f) = floatstr B f"
| "iterencode B ea indent level (PStr s) = encode_basestring ea s"
| "iterencode B ea indent level (PList xs) =
     (if xs = [] then lit ''[]''
      else lit ''['' @ newline_indent indent (level + 1)
         @ join (item_separator indent (level + 1))
             (map (iterencode B ea indent (level + 1)) xs)
         @ newline_indent indent level @ lit '']'')"
| "iterencode B ea indent level (PDict kvs) =
     (if kvs = [] then lit ''{}''
      else lit ''{'' @ newline_indent indent (level + 1)
         @ join (item_separator indent (level + 1))
             (map (\<lambda>kv. encode_basestring ea (fst kv) @ lit '': ''
                        @ iterencode B ea indent (level + 1) (snd kv)) kvs)
         @ newline_indent indent level @ lit ''}'')"

definition json_dumps :: "builtins \<Rightarrow> bool \<Rightarrow> nat option \<Rightarrow> pyval \<Rightarrow> pystr" where
  "json_dumps B ensure_ascii indent obj = iterencode B ensure_ascii indent 0 obj"

section \<open>The world: log, files, network\<close>

datatype level = INFO | ERROR

text \<open>
  A file opened with \<open>encoding='utf-8'\<close> holds the text written to it. \<open>Torn\<close> is a file
  that was truncated by \<open>open(..., 'w')\<close> and whose write then failed: how much text had
  reached it depends on the encoder's chunks and is left open.
\<close>

datatype file_content = Text pystr | Torn

record world =
  log_records :: "(level \<times> pystr) list"
  files :: "pystr \<rightharpoonup> file_content"
  writable :: "pystr \<Rightarrow> bool"

text \<open>
  A response of \<open>requests.get\<close>: its status and what \<open>response.json()\<close> gives, \<open>None\<close>
  when the body is not JSON and the call raises.
\<close>

record response =
  status_code :: int
  json_body :: "pyval option"

type_synonym network = "pystr \<Rightarrow> py_error + response"

definition logging_info :: "pystr \<Rightarrow> world \<Rightarrow> world" where
  "logging_info msg w = w\<lparr>log_records := log_records w @ [(INFO, msg)]\<rparr>"

definition logging_error :: "pystr \<Rightarrow> world \<Rightarrow> world" where
  "logging_error msg w = w\<lparr>log_records := log_records w @ [(ERROR, msg)]\<rparr>"

text \<open>The UTF-8 codec refuses the surrogate code points U+D800..U+DFFF.\<close>

definition utf8_encodable :: "pystr \<Rightarrow> bool" where
  "utf8_encodable s = list_all (\<lambda>c. \<not> (0xD800 \<le> c \<and> c \<le> 0xDFFF)) s"

section \<open>The program\<close>

definition url :: pystr where
  "url = lit ''https://openmoji.org/data/openmoji.json.gz''"

definition fetch_openmoji_data ::
    "network \<Rightarrow> pystr \<Rightarrow> world \<Rightarrow> (py_error + pyval) \<times> world" where
  "fetch_openmoji_data net u w =
     (case net u of
        Inl e \<Rightarrow> (Inl e, w)
      | Inr response \<Rightarrow>
          if status_code response = 200 then
            (case json_body response of
               None \<Rightarrow> (Inl JSONDecodeError, w)
             | Some v \<Rightarrow> (Inr v, w))
          else (Inr PNone, logging_error (lit ''Failed to fetch data from '' @ u) w))"

definition output_document :: "pyval list \<Rightarrow> pyval" where
  "output_document mapped_emojis =
     PDict [(lit ''$schema'', PStr (lit ''https://gitmoji.dev/api/gitmojis/schema'')),
            (lit ''gitmojis'', PList mapped_emojis)]"

definition save_to_json ::
    "builtins \<Rightarrow> pyval list \<Rightarrow> pystr \<Rightarrow> world \<Rightarrow> (py_error + unit) \<times> world" where
  "save_to_json B mapped_emojis output_file w =
     (if \<not> writable w output_file then (Inl OSError, w)
      else
        let text = json_dumps B False (Some 4) (output_document mapped_emojis) in
        if utf8_encodable text then
          (Inr (), logging_info (lit ''Emojis saved to '' @ output_file)
                     (w\<lparr>files := (files w)(output_file \<mapsto> Text text)\<rparr>))
        else (Inl UnicodeEncodeError, w\<lparr>files := (files w)(output_file \<mapsto> Torn)\<rparr>))"

definition main :: "builtins \<Rightarrow> network \<Rightarrow> world \<Rightarrow> (py_error + unit) \<times> world" where
  "main B net w0 =
     (let w1 = logging_info (lit ''Fetching OpenMoji data...'') w0 in
      case fetch_openmoji_data net url w1 of
        (Inl e, w2) \<Rightarrow> (Inl e, w2)
      | (Inr emojis_data, w2) \<Rightarrow>
          if truthy emojis_data then
            (let w3 = logging_info (lit ''Mapping emojis to the required schema...'') w2 in
             case map_to_schema B emojis_data of
               Inl e \<Rightarrow> (Inl e, w3)
             | Inr mapped_emojis \<Rightarrow>
                 (let output_file = lit ''emojis.json'';
                      w4 = logging_info
                             (lit ''Saving mapped emojis to '' @ output_file @ lit ''...'') w3
                  in case save_to_json B mapped_emojis output_file w4 of
                       (Inl e, w5) \<Rightarrow> (Inl e, w5)
                     | (Inr u, w5) \<Rightarrow>
                         (Inr (), logging_info
                            (lit ''Emojis fetched, mapped, and saved successfully.'') w5)))
          else (Inr (), w2))"

text \<open>
  A small stand-in for the interpreter's tables, exact on Basic Latin, capital I with
  dot (U+0130) and the Greek sigmas and the identity elsewhere. It serves to run the
  definitions on concrete inputs.
\<close>

definition sample_builtins :: builtins where
  "sample_builtins = \<lparr>
     to_lower_full = (\<lambda>c. if c = 0x130 then [0x69, 0x307]
                          else if c = 0x3A3 then [0x3C3]
                          else if 0x41 \<le> c \<and> c \<le> 0x5A then [c + 0x20]
                          else [c]),
     is_cased = (\<lambda>c. (0x41 \<le> c \<and> c \<le> 0x5A) \<or> (0x61 \<le> c \<and> c \<le> 0x7A)
                      \<or> c = 0x130 \<or> c = 0x3A3 \<or> c = 0x3C2 \<or> c = 0x3C3),
     is_case_ignorable = (\<lambda>c. c = 0x27 \<or> c = 0x2E \<or> c = 0x3A \<or> c = 0x5E
                               \<or> c = 0x60 \<or> c = 0x307),
     float_repr = (\<lambda>f. lit ''0.0''),
     str_of = (\<lambda>v. lit ''None'') \<rparr>"

section \<open>Sample inputs\<close>

text \<open>
  Two raw records as the upstream data has them, what the mapper makes of them, and a
  record without its \<open>hexcode\<close>.
\<close>

definition grinning :: pyval where
  "grinning = PDict [(lit ''emoji'', PStr [0x1F600]),
                     (lit ''hexcode'', PStr (lit ''1F600'')),
                     (lit ''annotation'', PStr (lit ''Grinning Face''))]"

definition grinning_mapped :: pyval where
  "grinning_mapped = PDict [(lit ''emoji'', PStr [0x1F600]),
                     (lit ''entity'', PStr (lit ''&#x1F600;'')),
                     (lit ''code'', PStr (lit '':grinning_face:'')),
                     (lit ''description'', PStr (lit ''Grinning Face'')),
                     (lit ''name'', PStr (lit ''grinning_face'')),
                     (lit ''semver'', PNone)]"

definition red_heart :: pyval where
  "red_heart = PDict [(lit ''annotation'', PStr (lit ''red heart'')),
                      (lit ''emoji'', PStr [0x2764, 0xFE0F]),
                      (lit ''hexcode'', PStr (lit ''2764''))]"

definition red_heart_mapped :: pyval where
  "red_heart_mapped = PDict [(lit ''emoji'', PStr [0x2764, 0xFE0F]),
                     (lit ''entity'', PStr (lit ''&#x2764;'')),
                     (lit ''code'', PStr (lit '':red_heart:'')),
                     (lit ''description'', PStr (lit ''red heart'')),
                     (lit ''name'', PStr (lit ''red_heart'')),
                     (lit ''semver'', PNone)]"

definition no_hexcode :: pyval where
  "no_hexcode = PDict [(lit ''emoji'', PStr [0x1F600]),
                       (lit ''annotation'', PStr (lit ''Grinning Face''))]"

text \<open>
  A world with nothing in it, one where the output file already exists, a network
  that answers every request with the same response, and one that cannot be reached.
\<close>

definition initial_world :: world where
  "initial_world = \<lparr>log_records = [], files = Map.empty, writable = (\<lambda>p. True)\<rparr>"

definition world_with_output :: world where
  "world_with_output = \<lparr>log_records = [],
     files = [lit ''emojis.json'' \<mapsto> Text (lit ''old'')], writable = (\<lambda>p. True)\<rparr>"

definition respond :: "response \<Rightarrow> network" where
  "respond r = (\<lambda>u. Inr r)"

definition unreachable :: network where
  "unreachable = (\<lambda>u. Inl ConnectionError)"

section \<open>Notions the properties are stated with\<close>

text \<open>
  Facts of the Unicode character database that the case tables satisfy: Basic Latin
  lowers as ASCII does; a lowercase mapping consists of characters that lower to
  themselves and never contains capital sigma; only the space lowers to something
  containing a space; space and underscore are neither cased nor case-ignorable.
\<close>

definition unicode_facts :: "builtins \<Rightarrow> bool" where
  "unicode_facts B \<longleftrightarrow>
     (\<forall>c<0x80. to_lower_full B c = [ascii_lower c]) \<and>
     (\<forall>c. \<forall>d\<in>set (to_lower_full B c). d \<noteq> 0x3A3 \<and> to_lower_full B d = [d]) \<and>
     to_lower_full B 0x3C2 = [0x3C2] \<and> to_lower_full B 0x3C3 = [0x3C3] \<and>
     (\<forall>c. 0x20 \<in> set (to_lower_full B c) \<longrightarrow> c = 0x20) \<and>
     \<not> is_cased B 0x20 \<and> \<not> is_cased B 0x5F \<and>
     \<not> is_case_ignorable B 0x20 \<and> \<not> is_case_ignorable B 0x5F"

text \<open>
  The other reading of "lowercased annotation with spaces replaced by underscores":
  lower first, then replace.
\<close>

definition lower_then_replace :: "builtins \<Rightarrow> pystr \<Rightarrow> pystr" where
  "lower_then_replace B s = str_replace (lit '' '') (lit ''_'') (py_lower B s)"

abbreviation (input) underscore :: "codepoint \<Rightarrow> codepoint" where
  "underscore \<equiv> (\<lambda>c. if c = 0x20 then 0x5F else c)"

text \<open>
  A character that \<open>lower()\<close> leaves alone wherever it stands.
\<close>

definition stable :: "builtins \<Rightarrow> codepoint \<Rightarrow> bool" where
  "stable B d \<longleftrightarrow> d \<noteq> 0x3A3 \<and> to_lower_full B d = [d]"

text \<open>
  A raw record of the data model, possibly with fields missing: a JSON object whose
  \<open>annotation\<close>, when present, is a string. \<open>has_required_fields\<close> says that none of the
  three fields is missing.
\<close>

definition is_raw_record :: "pyval \<Rightarrow> bool" where
  "is_raw_record r =
     (case r of
        PDict kvs \<Rightarrow> (case map_of kvs (lit ''annotation'') of
                        None \<Rightarrow> True | Some (PStr _) \<Rightarrow> True | Some _ \<Rightarrow> False)
      | _ \<Rightarrow> False)"

definition has_required_fields :: "pyval \<Rightarrow> bool" where
  "has_required_fields r =
     (case r of
        PDict kvs \<Rightarrow> list_all (\<lambda>k. map_of kvs k \<noteq> None)
                       [lit ''emoji'', lit ''hexcode'', lit ''annotation'']
      | _ \<Rightarrow> False)"

text \<open>
  The fetch fails: the request raises, the status is not 200, or the body is not JSON.
\<close>

definition fetch_fails :: "network \<Rightarrow> bool" where
  "fetch_fails net =
     (case net url of
        Inl e \<Rightarrow> True
      | Inr r \<Rightarrow> status_code r \<noteq> 200 \<or> json_body r = None)"

text \<open>
  A string between double quotes, nothing escaped.
\<close>

definition quoted :: "pystr \<Rightarrow> pystr" where
  "quoted s = [0x22] @ s @ [0x22]"

section \<open>Replacing and lowering\<close>

lemma str_replace_single: "str_replace [a] [b] s = map (\<lambda>c. if c = a then b else c) s"
  by (induction s) auto

lemma replace_space: "str_replace (lit '' '') (lit ''_'') s = map underscore s"
  by (simp add: lit_def str_replace_single)

lemma sample_facts: "unicode_facts sample_builtins"
  by (auto simp: unicode_facts_def sample_builtins_def ascii_lower_def split: if_splits)

lemma first_kept_map:
  assumes "\<And>c. P (u c) = P c" and "\<And>c. Q (u c) = Q c"
  shows "(case dropWhile P (map u xs) of [] \<Rightarrow> a | c # _ \<Rightarrow> Q c)
       = (case dropWhile P xs of [] \<Rightarrow> a | c # _ \<Rightarrow> Q c)"
  using assms by (induction xs) auto

lemma final_sigma_split:
  "final_sigma B l r \<longleftrightarrow>
     (case dropWhile (is_case_ignorable B) (rev l) of [] \<Rightarrow> False | c # _ \<Rightarrow> is_cased B c) \<and>
     (case dropWhile (is_case_ignorable B) r of [] \<Rightarrow> True | d # _ \<Rightarrow> \<not> is_cased B d)"
  unfolding final_sigma_def
  by (cases "dropWhile (is_case_ignorable B) (rev l)") (simp_all only: list.case simp_thms)

lemma final_sigma_underscore:
  assumes "unicode_facts B"
  shows "final_sigma B (map underscore l) (map underscore r) = final_sigma B l r"
proof -
  have ig: "is_case_ignorable B (underscore c) = is_case_ignorable B c"
    and ca: "is_cased B (underscore c) = is_cased B c" for c
    using assms by (simp_all add: unicode_facts_def)
  have before: "(case dropWhile (is_case_ignorable B) (map underscore xs) of
                   [] \<Rightarrow> False | c # _ \<Rightarrow> is_cased B c)
      = (case dropWhile (is_case_ignorable B) xs of [] \<Rightarrow> False | c # _ \<Rightarrow> is_cased B c)"
    for xs
    by (rule first_kept_map) (simp_all only: ig ca)
  have after: "(case dropWhile (is_case_ignorable B) (map underscore xs) of
                  [] \<Rightarrow> True | d # _ \<Rightarrow> \<not> is_cased B d)
      = (case dropWhile (is_case_ignorable B) xs of [] \<Rightarrow> True | d # _ \<Rightarrow> \<not> is_cased B d)"
    for xs
    by (rule first_kept_map) (simp_all only: ig ca)
  show ?thesis
    by (simp only: final_sigma_split rev_map before after)
qed

lemma map_absent: "x \<notin> set xs \<Longrightarrow> map (\<lambda>c. if c = x then y else c) xs = xs"
  by (induction xs) auto

lemma lower_ucs4_underscore:
  assumes "unicode_facts B"
  shows "lower_ucs4 B (map underscore l) (underscore c) (map underscore r)
       = map underscore (lower_ucs4 B l c r)"
proof (cases "c = 0x20")
  case True
  with assms show ?thesis
    by (simp add: lower_ucs4_def unicode_facts_def ascii_lower_def)
next
  case False
  have "0x20 \<notin> set (to_lower_full B c)"
    using assms False by (auto simp: unicode_facts_def)
  then have "map underscore (to_lower_full B c) = to_lower_full B c"
    by (rule map_absent)
  with False show ?thesis
    by (simp add: lower_ucs4_def final_sigma_underscore[OF assms])
qed

lemma lower_from_underscore:
  assumes "unicode_facts B"
  shows "lower_from B (map underscore l) (map underscore s) = map underscore (lower_from B l s)"
proof (induction s arbitrary: l)
  case Nil
  show ?case by simp
next
  case (Cons c s)
  have "lower_from B (map underscore (l @ [c])) (map underscore s)
      = map underscore (lower_from B (l @ [c]) s)"
    by (rule Cons.IH)
  then show ?case
    using lower_ucs4_underscore[OF assms, of l c s] by simp
qed

lemma ascii_underscore: "list_all (\<lambda>c. c < 0x80) (map underscore s) = list_all (\<lambda>c. c < (0x80::nat)) s"
  by (induction s) auto

lemma ascii_lower_underscore: "ascii_lower (underscore c) = underscore (ascii_lower c)"
  by (simp add: ascii_lower_def)

lemma py_lower_underscore:
  assumes "unicode_facts B"
  shows "py_lower B (map underscore s) = map underscore (py_lower B s)"
  using lower_from_underscore[OF assms, of "[]" s]
  by (simp add: py_lower_def ascii_underscore ascii_lower_underscore)

text \<open>
  C10. For every annotation string, replacing spaces by underscores and then lowering,
  as the code does, gives the same string as lowering first and replacing afterwards.
\<close>

theorem replace_lower_orders_agree:
  assumes "unicode_facts B"
  shows "replace_lower B (PStr annotation) = Inr (lower_then_replace B annotation)"
  by (simp add: replace_lower_def lower_then_replace_def replace_space
      py_lower_underscore[OF assms])

theorem replace_lower_orders_agree_witness:
  "unicode_facts sample_builtins \<and>
   lower_then_replace sample_builtins [0x41, 0x3A3, 0x20, 0x42] = [0x61, 0x3C2, 0x5F, 0x62] \<and>
   replace_lower sample_builtins (PStr [0x41, 0x3A3, 0x20, 0x42])
     = Inr [0x61, 0x3C2, 0x5F, 0x62]"
proof -
  have ev: "lower_then_replace sample_builtins [0x41, 0x3A3, 0x20, 0x42]
      = [0x61, 0x3C2, 0x5F, 0x62]"
    by (simp add: lower_then_replace_def lit_def py_lower_def lower_ucs4_def
        final_sigma_def sample_builtins_def)
  show ?thesis
    using replace_lower_orders_agree[OF sample_facts, of "[0x41, 0x3A3, 0x20, 0x42]"]
      sample_facts ev
    by simp
qed

section \<open>What lowering leaves behind\<close>

lemma lower_from_chars:
  "d \<in> set (lower_from B l s) \<Longrightarrow>
     d = 0x3C2 \<or> d = 0x3C3 \<or> (\<exists>c\<in>set s. c \<noteq> 0x3A3 \<and> d \<in> set (to_lower_full B c))"
  by (induction s arbitrary: l) (auto simp: lower_ucs4_def split: if_splits)

lemma ascii_lower_range: "c < 0x80 \<Longrightarrow> ascii_lower c < 0x80"
  by (simp add: ascii_lower_def)

lemma ascii_lower_idem: "ascii_lower (ascii_lower c) = ascii_lower c"
  by (simp add: ascii_lower_def)

lemma py_lower_chars:
  assumes "unicode_facts B" and "d \<in> set (py_lower B s)"
  shows "stable B d \<and> (d = 0x20 \<longrightarrow> 0x20 \<in> set s)"
proof (cases "list_all (\<lambda>c. c < 0x80) s")
  case True
  with assms(2) obtain c where c: "c \<in> set s" "c < 0x80" "d = ascii_lower c"
    by (auto simp: py_lower_def list_all_iff)
  have "to_lower_full B d = [ascii_lower d]"
    using assms(1) c ascii_lower_range[of c] by (simp add: unicode_facts_def)
  moreover have "d \<noteq> 0x3A3" using c ascii_lower_range[of c] by simp
  moreover have "d = 0x20 \<longrightarrow> c = 0x20" using c by (auto simp: ascii_lower_def split: if_splits)
  ultimately show ?thesis using c by (auto simp: stable_def ascii_lower_idem)
next
  case False
  with assms(2) have "d \<in> set (lower_from B [] s)" by (simp add: py_lower_def)
  then consider "d = 0x3C2" | "d = 0x3C3"
    | c where "c \<in> set s" "c \<noteq> 0x3A3" "d \<in> set (to_lower_full B c)"
    using lower_from_chars by blast
  then show ?thesis
  proof cases
    case 1
    with assms(1) show ?thesis by (simp add: stable_def unicode_facts_def)
  next
    case 2
    with assms(1) show ?thesis by (simp add: stable_def unicode_facts_def)
  next
    case 3
    have "stable B d" using assms(1) 3 by (auto simp: stable_def unicode_facts_def)
    moreover have "d = 0x20 \<longrightarrow> c = 0x20" using assms(1) 3 by (auto simp: unicode_facts_def)
    ultimately show ?thesis using 3 by auto
  qed
qed

lemma lower_from_stable:
  "\<forall>d\<in>set t. stable B d \<Longrightarrow> lower_from B l t = t"
  by (induction t arbitrary: l) (auto simp: lower_ucs4_def stable_def)

lemma py_lower_stable:
  assumes "unicode_facts B" and "\<forall>d\<in>set t. stable B d"
  shows "py_lower B t = t"
proof (cases "list_all (\<lambda>c. c < 0x80) t")
  case True
  have "ascii_lower d = d" if "d \<in> set t" for d
  proof -
    have "d < 0x80" using True that by (simp add: list_all_iff)
    then have "to_lower_full B d = [ascii_lower d]"
      using assms(1) by (simp add: unicode_facts_def)
    moreover have "to_lower_full B d = [d]" using assms(2) that by (simp add: stable_def)
    ultimately show ?thesis by simp
  qed
  then have "map ascii_lower t = t" by (simp add: map_idI)
  with True show ?thesis by (simp add: py_lower_def)
next
  case False
  then show ?thesis by (simp add: py_lower_def lower_from_stable[OF assms(2)])
qed

lemma stable_not_capital:
  assumes "unicode_facts B" and "stable B d"
  shows "\<not> (0x41 \<le> d \<and> d \<le> 0x5A)"
proof
  assume r: "0x41 \<le> d \<and> d \<le> 0x5A"
  then have "to_lower_full B d = [d + 0x20]"
    using assms(1) by (simp add: unicode_facts_def ascii_lower_def)
  with assms(2) show False by (simp add: stable_def)
qed

lemma stable_colon: "unicode_facts B \<Longrightarrow> stable B 0x3A"
  by (simp add: stable_def unicode_facts_def ascii_lower_def)

section \<open>The mapper, record by record\<close>

lemma bind_simps [simp]: "bind (Inl e) f = Inl e" "bind (Inr x) f = f x"
  by (simp_all add: bind_def)

lemma subscript_dict:
  "subscript (PDict kvs) k = (case map_of kvs k of None \<Rightarrow> Inl (KeyError k) | Some x \<Rightarrow> Inr x)"
  by (simp add: subscript_def)

lemma schema_entry_fields:
  assumes "map_of kvs (lit ''emoji'') = Some e"
    and "map_of kvs (lit ''hexcode'') = Some (PStr hexcode)"
    and "map_of kvs (lit ''annotation'') = Some (PStr annotation)"
  shows "schema_entry B (PDict kvs) = Inr (PDict
            [(lit ''emoji'', e),
             (lit ''entity'', PStr (lit ''&#x'' @ hexcode @ lit '';'')),
             (lit ''code'', PStr (lit '':''
                @ py_lower B (str_replace (lit '' '') (lit ''_'') annotation) @ lit '':'')),
             (lit ''description'', PStr annotation),
             (lit ''name'', PStr (py_lower B (str_replace (lit '' '') (lit ''_'') annotation))),
             (lit ''semver'', PNone)])"
  using assms
  by (simp add: schema_entry_def subscript_dict replace_lower_def py_format_def)

lemma schema_entry_Inr:
  assumes "schema_entry B r = Inr m"
  shows "\<exists>kvs e h a. r = PDict kvs \<and> map_of kvs (lit ''emoji'') = Some e
           \<and> map_of kvs (lit ''hexcode'') = Some h
           \<and> map_of kvs (lit ''annotation'') = Some (PStr a)
           \<and> m = PDict [(lit ''emoji'', e),
            (lit ''entity'', PStr (lit ''&#x'' @ py_format B h @ lit '';'')),
            (lit ''code'', PStr (lit '':'' @ py_lower B (str_replace (lit '' '') (lit ''_'') a) @ lit '':'')),
            (lit ''description'', PStr a),
            (lit ''name'', PStr (py_lower B (str_replace (lit '' '') (lit ''_'') a))),
            (lit ''semver'', PNone)]"
  using assms
  by (auto simp: schema_entry_def subscript_def replace_lower_def bind_def
      split: pyval.splits option.splits sum.splits)

lemma lit_keys [simp]:
  "lit ''name'' \<noteq> lit ''emoji''" "lit ''name'' \<noteq> lit ''entity''" "lit ''name'' \<noteq> lit ''code''"
  "lit ''name'' \<noteq> lit ''description''" "lit ''code'' \<noteq> lit ''emoji''" "lit ''code'' \<noteq> lit ''entity''"
  by (simp_all add: lit_def)

lemma map_loop_acc:
  "map_loop B xs acc = Inr ys \<longleftrightarrow>
     (\<exists>zs. ys = acc @ zs \<and> list_all2 (\<lambda>x z. schema_entry B x = Inr z) xs zs)"
proof (induction xs arbitrary: acc)
  case Nil
  show ?case by auto
next
  case (Cons x xs)
  show ?case
  proof (cases "schema_entry B x")
    case (Inl e)
    then show ?thesis by (auto simp: list_all2_Cons1)
  next
    case (Inr d)
    then show ?thesis by (auto simp: Cons.IH list_all2_Cons1)
  qed
qed

lemma map_to_schema_list:
  "map_to_schema B (PList xs) = Inr ys \<longleftrightarrow> list_all2 (\<lambda>x z. schema_entry B x = Inr z) xs ys"
  by (simp add: map_to_schema_def py_iter_def map_loop_acc)

lemma map_loop_error:
  "(\<exists>e. map_loop B xs acc = Inl e) \<longleftrightarrow> (\<exists>x\<in>set xs. \<exists>e. schema_entry B x = Inl e)"
proof (induction xs arbitrary: acc)
  case Nil
  show ?case by simp
next
  case (Cons x xs)
  show ?case by (cases "schema_entry B x") (auto simp: Cons.IH)
qed

lemma map_loop_error_in:
  "map_loop B xs acc = Inl e \<Longrightarrow> \<exists>x\<in>set xs. schema_entry B x = Inl e"
proof (induction xs arbitrary: acc)
  case Nil
  then show ?case by simp
next
  case (Cons x xs)
  then show ?case by (cases "schema_entry B x") auto
qed

lemma missing_field_entry:
  assumes "\<not> has_required_fields r"
  shows "\<exists>e. schema_entry B r = Inl e"
proof (cases "schema_entry B r")
  case (Inl e)
  then show ?thesis by blast
next
  case (Inr m)
  then have "has_required_fields r"
    using schema_entry_Inr[OF Inr] by (auto simp: has_required_fields_def)
  with assms show ?thesis by simp
qed

lemma raw_record_ok:
  assumes "is_raw_record r" and "has_required_fields r"
  shows "\<exists>m. schema_entry B r = Inr m"
  using assms
  by (auto simp: is_raw_record_def has_required_fields_def schema_entry_def subscript_def
      replace_lower_def split: pyval.splits option.splits)

lemma raw_record_error:
  assumes "is_raw_record r" and "schema_entry B r = Inl e"
  shows "e \<in> KeyError ` {lit ''emoji'', lit ''hexcode'', lit ''annotation''} \<and> \<not> has_required_fields r"
  using assms
  by (auto simp: is_raw_record_def has_required_fields_def schema_entry_def subscript_def
      replace_lower_def bind_def split: pyval.splits option.splits sum.splits)

lemmas run_mapper = schema_entry_def subscript_def replace_lower_def py_format_def
  py_lower_def ascii_lower_def lit_def

lemma grinning_entry: "schema_entry sample_builtins grinning = Inr grinning_mapped"
  by (simp add: grinning_def grinning_mapped_def run_mapper)

lemma red_heart_entry: "schema_entry sample_builtins red_heart = Inr red_heart_mapped"
  by (simp add: red_heart_def red_heart_mapped_def run_mapper)

lemma no_hexcode_entry: "schema_entry sample_builtins no_hexcode = Inl (KeyError (lit ''hexcode''))"
  by (simp add: no_hexcode_def run_mapper)

text \<open>
  C1. A raw record with the fields \<open>emoji\<close>, \<open>hexcode\<close> and \<open>annotation\<close>, the last two
  strings, is mapped to the record with \<open>emoji\<close> copied as it is, \<open>entity\<close> the hexcode
  between \<open>&#x\<close> and \<open>;\<close>, \<open>code\<close> the annotation with spaces replaced by underscores
  and lowered, between colons, \<open>description\<close> the annotation unchanged, \<open>name\<close> the
  annotation with spaces replaced and lowered, and \<open>semver\<close> \<open>None\<close>: alone in the input and
  at any position of a longer input that the mapper maps.
\<close>

theorem mapper_record_fields:
  assumes "map_of kvs (lit ''emoji'') = Some e"
    and "map_of kvs (lit ''hexcode'') = Some (PStr hexcode)"
    and "map_of kvs (lit ''annotation'') = Some (PStr annotation)"
  shows "let mapped = PDict
            [(lit ''emoji'', e),
             (lit ''entity'', PStr (lit ''&#x'' @ hexcode @ lit '';'')),
             (lit ''code'', PStr (lit '':''
                @ py_lower B (str_replace (lit '' '') (lit ''_'') annotation) @ lit '':'')),
             (lit ''description'', PStr annotation),
             (lit ''name'', PStr (py_lower B (str_replace (lit '' '') (lit ''_'') annotation))),
             (lit ''semver'', PNone)]
         in map_to_schema B (PList [PDict kvs]) = Inr [mapped] \<and>
            (\<forall>xs ys i. map_to_schema B (PList xs) = Inr ys \<and> i < length xs \<and> xs ! i = PDict kvs
               \<longrightarrow> ys ! i = mapped)"
  using schema_entry_fields[OF assms, of B]
  by (auto simp: Let_def map_to_schema_list list_all2_conv_all_nth)

theorem mapper_record_fields_witness:
  "map_of [(lit ''emoji'', PStr [0x1F600]), (lit ''hexcode'', PStr (lit ''1F600'')),
           (lit ''annotation'', PStr (lit ''Grinning Face''))] (lit ''emoji'')
     = Some (PStr [0x1F600]) \<and>
   map_of [(lit ''emoji'', PStr [0x1F600]), (lit ''hexcode'', PStr (lit ''1F600'')),
           (lit ''annotation'', PStr (lit ''Grinning Face''))] (lit ''hexcode'')
     = Some (PStr (lit ''1F600'')) \<and>
   map_of [(lit ''emoji'', PStr [0x1F600]), (lit ''hexcode'', PStr (lit ''1F600'')),
           (lit ''annotation'', PStr (lit ''Grinning Face''))] (lit ''annotation'')
     = Some (PStr (lit ''Grinning Face'')) \<and>
   map_to_schema sample_builtins
      (PList [PDict [(lit ''emoji'', PStr [0x1F600]), (lit ''hexcode'', PStr (lit ''1F600'')),
                     (lit ''annotation'', PStr (lit ''Grinning Face''))]])
     = Inr [PDict [(lit ''emoji'', PStr [0x1F600]),
                   (lit ''entity'', PStr (lit ''&#x1F600;'')),
                   (lit ''code'', PStr (lit '':grinning_face:'')),
                   (lit ''description'', PStr (lit ''Grinning Face'')),
                   (lit ''name'', PStr (lit ''grinning_face'')),
                   (lit ''semver'', PNone)]]"
proof -
  let ?kvs = "[(lit ''emoji'', PStr [0x1F600]), (lit ''hexcode'', PStr (lit ''1F600'')),
               (lit ''annotation'', PStr (lit ''Grinning Face''))]"
  have e: "map_of ?kvs (lit ''emoji'') = Some (PStr [0x1F600])"
    by (simp add: lit_def)
  have h: "map_of ?kvs (lit ''hexcode'') = Some (PStr (lit ''1F600''))"
    by (simp add: lit_def)
  have a: "map_of ?kvs (lit ''annotation'') = Some (PStr (lit ''Grinning Face''))"
    by (simp add: lit_def)
  have name: "py_lower sample_builtins (str_replace (lit '' '') (lit ''_'') (lit ''Grinning Face''))
      = lit ''grinning_face''"
    by (simp add: py_lower_def ascii_lower_def lit_def)
  have pieces: "lit ''&#x'' @ lit ''1F600'' @ lit '';'' = lit ''&#x1F600;''"
      "lit '':'' @ lit ''grinning_face'' @ lit '':'' = lit '':grinning_face:''"
    by (simp_all add: lit_def)
  from mapper_record_fields[OF e h a, of sample_builtins] e h a
  show ?thesis by (simp add: Let_def name pieces)
qed

text \<open>
  C2. The mapper returns a sequence exactly when every record maps; the result then has
  the length of the input, and its element \<open>i\<close> is what the record at \<open>i\<close> alone maps to.
  The mapper is a function of its input and touches neither log nor files.
\<close>

theorem mapper_length_order:
  "map_to_schema B (PList xs) = Inr ys \<longleftrightarrow>
     length ys = length xs \<and> (\<forall>i<length xs. schema_entry B (xs ! i) = Inr (ys ! i))"
  by (auto simp: map_to_schema_list list_all2_conv_all_nth)

theorem mapper_length_order_witness:
  "map_to_schema sample_builtins (PList [red_heart, grinning, red_heart])
     = Inr [red_heart_mapped, grinning_mapped, red_heart_mapped] \<and>
   length [red_heart_mapped, grinning_mapped, red_heart_mapped]
     = length [red_heart, grinning, red_heart] \<and>
   schema_entry sample_builtins ([red_heart, grinning, red_heart] ! 0)
     = Inr ([red_heart_mapped, grinning_mapped, red_heart_mapped] ! 0) \<and>
   schema_entry sample_builtins ([red_heart, grinning, red_heart] ! 1)
     = Inr ([red_heart_mapped, grinning_mapped, red_heart_mapped] ! 1) \<and>
   schema_entry sample_builtins ([red_heart, grinning, red_heart] ! 2)
     = Inr ([red_heart_mapped, grinning_mapped, red_heart_mapped] ! 2)"
proof -
  have run: "map_to_schema sample_builtins (PList [red_heart, grinning, red_heart])
     = Inr [red_heart_mapped, grinning_mapped, red_heart_mapped]"
    by (simp add: map_to_schema_def py_iter_def grinning_entry red_heart_entry)
  from mapper_length_order[THEN iffD1, OF run]
  have len: "length [red_heart_mapped, grinning_mapped, red_heart_mapped]
      = length [red_heart, grinning, red_heart]"
    and each: "\<And>i. i < length [red_heart, grinning, red_heart] \<Longrightarrow>
      schema_entry sample_builtins ([red_heart, grinning, red_heart] ! i)
        = Inr ([red_heart_mapped, grinning_mapped, red_heart_mapped] ! i)"
    by blast+
  have "(0::nat) < length [red_heart, grinning, red_heart]"
    "(1::nat) < length [red_heart, grinning, red_heart]"
    "(2::nat) < length [red_heart, grinning, red_heart]"
    by simp_all
  then show ?thesis using run len each by blast
qed

text \<open>
  C4. The mapper fails with an error whenever some element of the input lacks one of
  the three required fields. On raw records that is the only way it fails, and the error
  is the \<open>KeyError\<close> of such a field: when no field is missing it succeeds and maps every
  record in place, so nothing is dropped, merged or reordered.
\<close>

theorem mapper_missing_field:
  "((\<exists>r\<in>set xs. \<not> has_required_fields r) \<longrightarrow> (\<exists>e. map_to_schema B (PList xs) = Inl e)) \<and>
   ((\<forall>r\<in>set xs. is_raw_record r) \<longrightarrow>
      (if \<forall>r\<in>set xs. has_required_fields r
       then \<exists>ys. map_to_schema B (PList xs) = Inr ys \<and> length ys = length xs \<and>
              (\<forall>i<length xs. schema_entry B (xs ! i) = Inr (ys ! i))
       else \<exists>k\<in>{lit ''emoji'', lit ''hexcode'', lit ''annotation''}.
              map_to_schema B (PList xs) = Inl (KeyError k)))"
proof (intro conjI impI)
  assume "\<exists>r\<in>set xs. \<not> has_required_fields r"
  then obtain r where "r \<in> set xs" "\<exists>e. schema_entry B r = Inl e"
    using missing_field_entry by blast
  then have "\<exists>e. map_loop B xs [] = Inl e"
    using map_loop_error[of B xs "[]"] by blast
  then show "\<exists>e. map_to_schema B (PList xs) = Inl e"
    by (simp add: map_to_schema_def py_iter_def)
next
  assume raw: "\<forall>r\<in>set xs. is_raw_record r"
  show "if \<forall>r\<in>set xs. has_required_fields r
       then \<exists>ys. map_to_schema B (PList xs) = Inr ys \<and> length ys = length xs \<and>
              (\<forall>i<length xs. schema_entry B (xs ! i) = Inr (ys ! i))
       else \<exists>k\<in>{lit ''emoji'', lit ''hexcode'', lit ''annotation''}.
              map_to_schema B (PList xs) = Inl (KeyError k)"
  proof (cases "\<forall>r\<in>set xs. has_required_fields r")
    case True
    have "\<forall>r\<in>set xs. \<exists>m. schema_entry B r = Inr m"
      using raw True raw_record_ok by blast
    then have "\<not> (\<exists>e. map_loop B xs [] = Inl e)"
      by (auto simp: map_loop_error)
    then obtain ys where "map_to_schema B (PList xs) = Inr ys"
      by (cases "map_loop B xs []") (auto simp: map_to_schema_def py_iter_def)
    with True show ?thesis
      by (auto simp: map_to_schema_list list_all2_conv_all_nth)
  next
    case False
    then obtain r where "r \<in> set xs" "\<exists>e. schema_entry B r = Inl e"
      using missing_field_entry by blast
    then obtain e where e: "map_loop B xs [] = Inl e"
      using map_loop_error[of B xs "[]"] by blast
    then obtain x where "x \<in> set xs" "schema_entry B x = Inl e"
      using map_loop_error_in by blast
    then have "e \<in> KeyError ` {lit ''emoji'', lit ''hexcode'', lit ''annotation''}"
      using raw raw_record_error by blast
    with e False show ?thesis
      by (auto simp: map_to_schema_def py_iter_def)
  qed
qed

theorem mapper_missing_field_witness:
  "is_raw_record grinning \<and> is_raw_record no_hexcode \<and> is_raw_record red_heart \<and>
   has_required_fields grinning \<and> \<not> has_required_fields no_hexcode \<and>
   map_to_schema sample_builtins (PList [grinning, no_hexcode, red_heart])
     = Inl (KeyError (lit ''hexcode''))"
proof -
  have shapes: "is_raw_record grinning" "is_raw_record no_hexcode" "is_raw_record red_heart"
    by (simp_all add: is_raw_record_def grinning_def no_hexcode_def red_heart_def lit_def)
  have fields: "has_required_fields grinning" "\<not> has_required_fields no_hexcode"
    by (simp_all add: has_required_fields_def grinning_def no_hexcode_def lit_def)
  have raw: "\<forall>r\<in>set [grinning, no_hexcode, red_heart]. is_raw_record r"
    using shapes by simp
  have missing: "\<not> (\<forall>r\<in>set [grinning, no_hexcode, red_heart]. has_required_fields r)"
    using fields by simp
  have "\<exists>k\<in>{lit ''emoji'', lit ''hexcode'', lit ''annotation''}.
          map_to_schema sample_builtins (PList [grinning, no_hexcode, red_heart]) = Inl (KeyError k)"
    using mapper_missing_field[of "[grinning, no_hexcode, red_heart]" sample_builtins] raw missing
    by (simp only: if_False simp_thms)
  then obtain k where k: "k \<in> {lit ''emoji'', lit ''hexcode'', lit ''annotation''}"
      "map_to_schema sample_builtins (PList [grinning, no_hexcode, red_heart]) = Inl (KeyError k)"
    by blast
  have "map_to_schema sample_builtins (PList [grinning, no_hexcode, red_heart])
      = Inl (KeyError (lit ''hexcode''))"
    by (simp add: map_to_schema_def py_iter_def grinning_entry no_hexcode_entry)
  with k have "k = lit ''hexcode''" by simp
  with k shapes fields show ?thesis by simp
qed

text \<open>
  C8. In every mapped record \<open>name\<close> and \<open>code\<close> contain no space (U+0020) and are
  lowercase: \<open>lower()\<close> leaves them as they are and no capital letter A to Z occurs in
  them. This holds for an empty annotation as well.
\<close>

theorem mapped_names_lowercase:
  assumes "unicode_facts B" and "map_to_schema B (PList xs) = Inr ys" and "i < length xs"
  shows "\<exists>a name. subscript (xs ! i) (lit ''annotation'') = Inr (PStr a)
       \<and> subscript (ys ! i) (lit ''name'') = Inr (PStr name)
       \<and> subscript (ys ! i) (lit ''code'') = Inr (PStr (lit '':'' @ name @ lit '':''))
       \<and> (\<forall>s\<in>{name, lit '':'' @ name @ lit '':''}.
             0x20 \<notin> set s \<and> py_lower B s = s \<and> (\<forall>c\<in>set s. \<not> (0x41 \<le> c \<and> c \<le> 0x5A)))"
proof -
  have "schema_entry B (xs ! i) = Inr (ys ! i)"
    using assms(2,3) by (simp add: list_all2_conv_all_nth map_to_schema_list)
  then obtain kvs e h a where r: "xs ! i = PDict kvs"
      "map_of kvs (lit ''annotation'') = Some (PStr a)"
      and m: "ys ! i = PDict [(lit ''emoji'', e),
            (lit ''entity'', PStr (lit ''&#x'' @ py_format B h @ lit '';'')),
            (lit ''code'', PStr (lit '':'' @ py_lower B (str_replace (lit '' '') (lit ''_'') a) @ lit '':'')),
            (lit ''description'', PStr a),
            (lit ''name'', PStr (py_lower B (str_replace (lit '' '') (lit ''_'') a))),
            (lit ''semver'', PNone)]"
    using schema_entry_Inr by blast
  define name where "name = py_lower B (str_replace (lit '' '') (lit ''_'') a)"
  have chars: "stable B d \<and> d \<noteq> 0x20" if "d \<in> set name" for d
    using py_lower_chars[OF assms(1), of d "map underscore a"] that
    by (auto simp: name_def replace_space)
  have colon: "lit '':'' = [0x3A]" by (simp add: lit_def)
  have code_chars: "stable B d \<and> d \<noteq> 0x20" if "d \<in> set (lit '':'' @ name @ lit '':'')" for d
    using that chars stable_colon[OF assms(1)] by (auto simp: colon)
  have good: "0x20 \<notin> set s \<and> py_lower B s = s \<and> (\<forall>c\<in>set s. \<not> (0x41 \<le> c \<and> c \<le> 0x5A))"
    if "\<And>d. d \<in> set s \<Longrightarrow> stable B d \<and> d \<noteq> 0x20" for s
    using that py_lower_stable[OF assms(1), of s] stable_not_capital[OF assms(1)] by blast
  have "subscript (xs ! i) (lit ''annotation'') = Inr (PStr a)"
    using r by (simp add: subscript_def)
  moreover have "subscript (ys ! i) (lit ''name'') = Inr (PStr name)"
    by (simp add: m subscript_def name_def)
  moreover have "subscript (ys ! i) (lit ''code'') = Inr (PStr (lit '':'' @ name @ lit '':''))"
    by (simp add: m subscript_def name_def)
  ultimately show ?thesis
    using good[OF chars] good[OF code_chars] by blast
qed

theorem mapped_names_lowercase_witness:
  "unicode_facts sample_builtins \<and>
   map_to_schema sample_builtins (PList [red_heart, grinning])
     = Inr [red_heart_mapped, grinning_mapped] \<and>
   1 < length [red_heart, grinning] \<and>
   subscript ([red_heart, grinning] ! 1) (lit ''annotation'') = Inr (PStr (lit ''Grinning Face'')) \<and>
   subscript ([red_heart_mapped, grinning_mapped] ! 1) (lit ''name'')
     = Inr (PStr (lit ''grinning_face'')) \<and>
   subscript ([red_heart_mapped, grinning_mapped] ! 1) (lit ''code'')
     = Inr (PStr (lit '':'' @ lit ''grinning_face'' @ lit '':'')) \<and>
   0x20 \<notin> set (lit ''grinning_face'') \<and>
   py_lower sample_builtins (lit ''grinning_face'') = lit ''grinning_face'' \<and>
   list_all (\<lambda>c. c < 0x41 \<or> 0x5A < c) (lit ''grinning_face'') \<and>
   0x20 \<notin> set (lit '':'' @ lit ''grinning_face'' @ lit '':'') \<and>
   py_lower sample_builtins (lit '':'' @ lit ''grinning_face'' @ lit '':'')
     = lit '':'' @ lit ''grinning_face'' @ lit '':'' \<and>
   list_all (\<lambda>c. c < 0x41 \<or> 0x5A < c) (lit '':'' @ lit ''grinning_face'' @ lit '':'')"
proof -
  have run: "map_to_schema sample_builtins (PList [red_heart, grinning])
     = Inr [red_heart_mapped, grinning_mapped]"
    by (simp add: map_to_schema_def py_iter_def grinning_entry red_heart_entry)
  have i: "1 < length [red_heart, grinning]" by simp
  have ann: "subscript ([red_heart, grinning] ! 1) (lit ''annotation'')
      = Inr (PStr (lit ''Grinning Face''))"
    by (simp add: grinning_def subscript_def lit_def)
  have nm: "subscript ([red_heart_mapped, grinning_mapped] ! 1) (lit ''name'')
      = Inr (PStr (lit ''grinning_face''))"
    by (simp add: grinning_mapped_def subscript_def lit_def)
  from mapped_names_lowercase[OF sample_facts run i]
  obtain a name where name: "subscript ([red_heart_mapped, grinning_mapped] ! 1) (lit ''name'')
        = Inr (PStr name)"
    and code: "subscript ([red_heart_mapped, grinning_mapped] ! 1) (lit ''code'')
        = Inr (PStr (lit '':'' @ name @ lit '':''))"
    and good: "\<forall>s\<in>{name, lit '':'' @ name @ lit '':''}.
        0x20 \<notin> set s \<and> py_lower sample_builtins s = s
        \<and> (\<forall>c\<in>set s. \<not> (0x41 \<le> c \<and> c \<le> 0x5A))"
    by blast
  have eq: "name = lit ''grinning_face''" using name nm by simp
  have caps: "list_all (\<lambda>c. c < 0x41 \<or> 0x5A < c) s"
    if "\<forall>c\<in>set s. \<not> (0x41 \<le> c \<and> c \<le> (0x5A::nat))" for s
    using that by (auto simp: list_all_iff)
  from good have "0x20 \<notin> set name" "py_lower sample_builtins name = name"
      "list_all (\<lambda>c. c < 0x41 \<or> 0x5A < c) name"
      "0x20 \<notin> set (lit '':'' @ name @ lit '':'')"
      "py_lower sample_builtins (lit '':'' @ name @ lit '':'') = lit '':'' @ name @ lit '':''"
      "list_all (\<lambda>c. c < 0x41 \<or> 0x5A < c) (lit '':'' @ name @ lit '':'')"
    using caps by blast+
  then show ?thesis
    using sample_facts run i ann nm code unfolding eq by (intro conjI)
qed

section \<open>The fetcher and the pipeline\<close>

text \<open>
  C5, as the code has it. On status 200 with a JSON body the fetcher returns the decoded
  value and logs nothing. On any other status it logs one error, whose message names the
  URL and nothing else, and returns \<open>None\<close>.
\<close>

theorem fetch_result:
  "(net u = Inr r \<and> status_code r = 200 \<and> json_body r = Some v
      \<longrightarrow> fetch_openmoji_data net u w = (Inr v, w)) \<and>
   (net u = Inr r \<and> status_code r \<noteq> 200
      \<longrightarrow> fetch_openmoji_data net u w
            = (Inr PNone, w\<lparr>log_records := log_records w
                 @ [(ERROR, lit ''Failed to fetch data from '' @ u)]\<rparr>))"
  by (simp add: fetch_openmoji_data_def logging_error_def)

theorem fetch_result_witness:
  "fetch_openmoji_data (respond \<lparr>status_code = 200, json_body = Some (PList [grinning])\<rparr>)
       url initial_world = (Inr (PList [grinning]), initial_world) \<and>
   fetch_openmoji_data (respond \<lparr>status_code = 404, json_body = Some (PList [grinning])\<rparr>)
       url initial_world
     = (Inr PNone, initial_world\<lparr>log_records := log_records initial_world
          @ [(ERROR, lit ''Failed to fetch data from '' @ url)]\<rparr>)"
  using fetch_result[of "respond \<lparr>status_code = 200, json_body = Some (PList [grinning])\<rparr>"
      url "\<lparr>status_code = 200, json_body = Some (PList [grinning])\<rparr>" "PList [grinning]"
      initial_world]
    fetch_result[of "respond \<lparr>status_code = 404, json_body = Some (PList [grinning])\<rparr>"
      url "\<lparr>status_code = 404, json_body = Some (PList [grinning])\<rparr>" "PList [grinning]"
      initial_world]
  by (simp add: respond_def)

text \<open>
  C5 as stated fails: the error message does not identify the status. For status 404
  the whole message is the fixed text followed by the URL, and status 500 leaves the
  very same log.
\<close>

theorem fetch_error_omits_status:
  "fetch_openmoji_data (respond \<lparr>status_code = 404, json_body = None\<rparr>) url initial_world
     = (Inr PNone, initial_world\<lparr>log_records :=
          [(ERROR, lit ''Failed to fetch data from https://openmoji.org/data/openmoji.json.gz'')]\<rparr>)
   \<and> fetch_openmoji_data (respond \<lparr>status_code = 500, json_body = None\<rparr>) url initial_world
     = fetch_openmoji_data (respond \<lparr>status_code = 404, json_body = None\<rparr>) url initial_world"
  by (simp add: fetch_openmoji_data_def respond_def logging_error_def initial_world_def url_def lit_def)

lemma main_net_error:
  "net url = Inl e \<Longrightarrow>
     main B net w = (Inl e, logging_info (lit ''Fetching OpenMoji data...'') w)"
  by (simp add: main_def fetch_openmoji_data_def)

lemma main_bad_json:
  "net url = Inr r \<Longrightarrow> status_code r = 200 \<Longrightarrow> json_body r = None \<Longrightarrow>
     main B net w = (Inl JSONDecodeError, logging_info (lit ''Fetching OpenMoji data...'') w)"
  by (simp add: main_def fetch_openmoji_data_def)

lemma main_bad_status:
  "net url = Inr r \<Longrightarrow> status_code r \<noteq> 200 \<Longrightarrow>
     main B net w = (Inr (), logging_error (lit ''Failed to fetch data from '' @ url)
                     (logging_info (lit ''Fetching OpenMoji data...'') w))"
  by (simp add: main_def fetch_openmoji_data_def)

text \<open>
  C7, as the code has it. Every fetch failure halts the pipeline after the first log
  line. Only a status other than 200 is logged, as one error, and the program ends
  normally; an unreachable network and a body that is not JSON leave the program as an
  uncaught exception, with no log record of their own.
\<close>

theorem fetch_error_halts:
  "(net url = Inl e \<longrightarrow>
      main B net w = (Inl e, logging_info (lit ''Fetching OpenMoji data...'') w)) \<and>
   (net url = Inr r \<and> status_code r = 200 \<and> json_body r = None \<longrightarrow>
      main B net w = (Inl JSONDecodeError, logging_info (lit ''Fetching OpenMoji data...'') w)) \<and>
   (net url = Inr r \<and> status_code r \<noteq> 200 \<longrightarrow>
      main B net w
        = (Inr (), logging_error (lit ''Failed to fetch data from '' @ url)
                     (logging_info (lit ''Fetching OpenMoji data...'') w)))"
  by (simp add: main_net_error main_bad_json main_bad_status)

theorem fetch_error_halts_witness:
  "main sample_builtins unreachable initial_world
     = (Inl ConnectionError, logging_info (lit ''Fetching OpenMoji data...'') initial_world) \<and>
   main sample_builtins (respond \<lparr>status_code = 200, json_body = None\<rparr>) initial_world
     = (Inl JSONDecodeError, logging_info (lit ''Fetching OpenMoji data...'') initial_world) \<and>
   main sample_builtins (respond \<lparr>status_code = 404, json_body = None\<rparr>) initial_world
     = (Inr (), logging_error (lit ''Failed to fetch data from '' @ url)
                  (logging_info (lit ''Fetching OpenMoji data...'') initial_world))"
  using fetch_error_halts[where net = unreachable and e = ConnectionError
      and B = sample_builtins and w = initial_world]
    fetch_error_halts[where net = "respond \<lparr>status_code = 200, json_body = None\<rparr>"
      and r = "\<lparr>status_code = 200, json_body = None\<rparr>"
      and B = sample_builtins and w = initial_world]
    fetch_error_halts[where net = "respond \<lparr>status_code = 404, json_body = None\<rparr>"
      and r = "\<lparr>status_code = 404, json_body = None\<rparr>"
      and B = sample_builtins and w = initial_world]
  by (simp add: respond_def unreachable_def)

text \<open>
  C7 as stated fails: when the network cannot be reached, or the body is not JSON, the
  log holds the line written before the fetch and no record of the failure.
\<close>

theorem network_failure_not_logged:
  "main sample_builtins unreachable initial_world
     = (Inl ConnectionError,
        initial_world\<lparr>log_records := [(INFO, lit ''Fetching OpenMoji data...'')]\<rparr>)
   \<and> main sample_builtins (respond \<lparr>status_code = 200, json_body = None\<rparr>) initial_world
     = (Inl JSONDecodeError,
        initial_world\<lparr>log_records := [(INFO, lit ''Fetching OpenMoji data...'')]\<rparr>)"
  by (simp add: main_def fetch_openmoji_data_def unreachable_def respond_def logging_info_def
      initial_world_def)

text \<open>
  C6. When the fetch fails, every file is as it was, and the only log records added
  are the line written before the fetch and the fetcher's error: the mapping and saving
  steps leave no trace.
\<close>

theorem fetch_failure_writes_nothing:
  assumes "fetch_fails net"
  shows "files (snd (main B net w)) = files w \<and>
         (\<forall>rec\<in>set (log_records (snd (main B net w))).
            rec \<in> set (log_records w) \<or>
            rec = (INFO, lit ''Fetching OpenMoji data...'') \<or>
            rec = (ERROR, lit ''Failed to fetch data from '' @ url))"
proof (cases "net url")
  case (Inl e)
  then show ?thesis by (simp add: main_net_error logging_info_def)
next
  case (Inr r)
  show ?thesis
  proof (cases "status_code r = 200")
    case True
    with assms Inr have "json_body r = None" by (simp add: fetch_fails_def)
    with Inr True show ?thesis by (simp add: main_bad_json logging_info_def)
  next
    case False
    with Inr show ?thesis by (simp add: main_bad_status logging_info_def logging_error_def)
  qed
qed

theorem fetch_failure_writes_nothing_witness:
  "fetch_fails (respond \<lparr>status_code = 404, json_body = Some (PList [grinning])\<rparr>) \<and>
   files (snd (main sample_builtins
      (respond \<lparr>status_code = 404, json_body = Some (PList [grinning])\<rparr>) world_with_output))
     (lit ''emojis.json'') = Some (Text (lit ''old''))"
proof -
  have fails: "fetch_fails (respond \<lparr>status_code = 404, json_body = Some (PList [grinning])\<rparr>)"
    by (simp add: fetch_fails_def respond_def)
  from fetch_failure_writes_nothing[OF fails, of sample_builtins world_with_output] fails
  show ?thesis by (simp add: world_with_output_def)
qed

text \<open>
  C9. When the fetch succeeds with an empty list, the program ends normally after the
  first log line: nothing is mapped and no file is written or changed.
\<close>

theorem empty_result_skips_output:
  assumes "net url = Inr r" and "status_code r = 200" and "json_body r = Some (PList [])"
  shows "main B net w = (Inr (), logging_info (lit ''Fetching OpenMoji data...'') w) \<and>
         files (snd (main B net w)) = files w"
  using assms by (simp add: main_def fetch_openmoji_data_def logging_info_def)

theorem empty_result_skips_output_witness:
  "main sample_builtins (respond \<lparr>status_code = 200, json_body = Some (PList [])\<rparr>)
      world_with_output
     = (Inr (), logging_info (lit ''Fetching OpenMoji data...'') world_with_output) \<and>
   files (snd (main sample_builtins
      (respond \<lparr>status_code = 200, json_body = Some (PList [])\<rparr>) world_with_output))
     (lit ''emojis.json'') = Some (Text (lit ''old''))"
  using empty_result_skips_output[of "respond \<lparr>status_code = 200, json_body = Some (PList [])\<rparr>"
      "\<lparr>status_code = 200, json_body = Some (PList [])\<rparr>" sample_builtins world_with_output]
  by (simp add: respond_def world_with_output_def logging_info_def)

section \<open>The writer\<close>

lemma escape_non_ascii: "0x80 \<le> c \<Longrightarrow> escape_char False c = [c]"
  by (simp add: escape_char_def)

lemma encode_plain:
  "\<forall>c\<in>set s. 0x20 \<le> c \<and> c \<noteq> 0x22 \<and> c \<noteq> 0x5C \<Longrightarrow> encode_basestring False s = quoted s"
proof -
  assume a: "\<forall>c\<in>set s. 0x20 \<le> c \<and> c \<noteq> 0x22 \<and> c \<noteq> 0x5C"
  have "concat (map (escape_char False) s) = s"
    using a by (induction s) (auto simp: escape_char_def)
  then show ?thesis by (simp add: encode_basestring_def quoted_def)
qed

lemma encode_keys:
  "encode_basestring False (lit ''$schema'') = quoted (lit ''$schema'')"
  "encode_basestring False (lit ''gitmojis'') = quoted (lit ''gitmojis'')"
  "encode_basestring False (lit ''https://gitmoji.dev/api/gitmojis/schema'')
     = quoted (lit ''https://gitmoji.dev/api/gitmojis/schema'')"
  by (rule encode_plain, simp add: lit_def)+

lemma spaces:
  "replicate 4 (0x20::nat) = lit ''    ''"
  "replicate 8 (0x20::nat) = lit ''        ''"
  "replicate 12 (0x20::nat) = lit ''            ''"
  by (simp_all add: lit_def numeral_eq_Suc)

lemma document_text:
  "json_dumps B False (Some 4) (output_document mapped_emojis)
     = lit ''{'' @ [0x0A]
       @ lit ''    '' @ quoted (lit ''$schema'') @ lit '': ''
          @ quoted (lit ''https://gitmoji.dev/api/gitmojis/schema'') @ lit '','' @ [0x0A]
       @ lit ''    '' @ quoted (lit ''gitmojis'') @ lit '': ''
          @ iterencode B False (Some 4) 1 (PList mapped_emojis) @ [0x0A]
       @ lit ''}''"
proof -
  have four: "replicate 4 (0x20::nat) = lit ''    ''"
    by (simp add: lit_def numeral_eq_Suc)
  show ?thesis
    by (simp add: json_dumps_def output_document_def encode_keys newline_indent_def
        item_separator_def four)
qed

lemma list_text:
  "mapped_emojis \<noteq> [] \<Longrightarrow>
   iterencode B False (Some 4) 1 (PList mapped_emojis)
     = lit ''['' @ [0x0A] @ lit ''        ''
       @ join (lit '','' @ [0x0A] @ lit ''        '')
           (map (iterencode B False (Some 4) 2) mapped_emojis)
       @ [0x0A] @ lit ''    '' @ lit '']''"
proof -
  have four: "replicate 4 (0x20::nat) = lit ''    ''"
    by (simp add: lit_def numeral_eq_Suc)
  have eight: "replicate 8 (0x20::nat) = lit ''        ''"
    by (simp add: lit_def numeral_eq_Suc)
  assume "mapped_emojis \<noteq> []"
  then show ?thesis
    by (simp add: newline_indent_def item_separator_def four eight numeral_2_eq_2)
qed

lemma string_text:
  "iterencode B False indent level (PStr s)
     = [0x22] @ concat (map (\<lambda>c. if c < 0x80 then escape_char False c else [c]) s) @ [0x22]"
proof -
  have "(\<lambda>c. if c < 0x80 then escape_char False c else [c]) = escape_char False"
    by (rule ext) (simp add: escape_non_ascii)
  then show ?thesis by (simp add: encode_basestring_def)
qed

text \<open>
  C3. When the path can be opened and the text encoded, the writer replaces whatever
  the file held by a JSON object of two keys, \<open>$schema\<close> with the fixed address and
  \<open>gitmojis\<close> with the mapped sequence, indented by four spaces a level; in every string
  the characters outside ASCII stand for themselves.
\<close>

theorem save_to_json_writes_document:
  assumes "writable w output_file"
    and "utf8_encodable (json_dumps B False (Some 4) (output_document mapped_emojis))"
  shows "\<exists>text.
      save_to_json B mapped_emojis output_file w
        = (Inr (), logging_info (lit ''Emojis saved to '' @ output_file)
                     (w\<lparr>files := (files w)(output_file \<mapsto> Text text)\<rparr>)) \<and>
      text = lit ''{'' @ [0x0A]
         @ lit ''    '' @ quoted (lit ''$schema'') @ lit '': ''
            @ quoted (lit ''https://gitmoji.dev/api/gitmojis/schema'') @ lit '','' @ [0x0A]
         @ lit ''    '' @ quoted (lit ''gitmojis'') @ lit '': ''
            @ iterencode B False (Some 4) 1 (PList mapped_emojis) @ [0x0A]
         @ lit ''}'' \<and>
      (mapped_emojis \<noteq> [] \<longrightarrow>
         iterencode B False (Some 4) 1 (PList mapped_emojis)
           = lit ''['' @ [0x0A] @ lit ''        ''
             @ join (lit '','' @ [0x0A] @ lit ''        '')
                 (map (iterencode B False (Some 4) 2) mapped_emojis)
             @ [0x0A] @ lit ''    '' @ lit '']'') \<and>
      (\<forall>s level. iterencode B False (Some 4) level (PStr s)
           = [0x22] @ concat (map (\<lambda>c. if c < 0x80 then escape_char False c else [c]) s)
             @ [0x22])"
proof -
  let ?text = "json_dumps B False (Some 4) (output_document mapped_emojis)"
  have saved: "save_to_json B mapped_emojis output_file w
        = (Inr (), logging_info (lit ''Emojis saved to '' @ output_file)
                     (w\<lparr>files := (files w)(output_file \<mapsto> Text ?text)\<rparr>))"
    using assms by (simp add: save_to_json_def)
  have items: "mapped_emojis \<noteq> [] \<longrightarrow>
         iterencode B False (Some 4) 1 (PList mapped_emojis)
           = lit ''['' @ [0x0A] @ lit ''        ''
             @ join (lit '','' @ [0x0A] @ lit ''        '')
                 (map (iterencode B False (Some 4) 2) mapped_emojis)
             @ [0x0A] @ lit ''    '' @ lit '']''"
    using list_text by blast
  have strings: "\<forall>s level. iterencode B False (Some 4) level (PStr s)
           = [0x22] @ concat (map (\<lambda>c. if c < 0x80 then escape_char False c else [c]) s)
             @ [0x22]"
    using string_text by blast
  show ?thesis
    by (rule exI[of _ ?text], intro conjI) (fact saved document_text items strings)+
qed

theorem save_to_json_writes_document_witness:
  "writable world_with_output (lit ''emojis.json'') \<and>
   utf8_encodable (json_dumps sample_builtins False (Some 4) (output_document [grinning_mapped])) \<and>
   files world_with_output (lit ''emojis.json'') = Some (Text (lit ''old'')) \<and>
   files (snd (save_to_json sample_builtins [grinning_mapped] (lit ''emojis.json'')
                 world_with_output)) (lit ''emojis.json'')
     = Some (Text (
         lit ''{'' @ [0x0A]
       @ lit ''    '' @ quoted (lit ''$schema'') @ lit '': ''
           @ quoted (lit ''https://gitmoji.dev/api/gitmojis/schema'') @ lit '','' @ [0x0A]
       @ lit ''    '' @ quoted (lit ''gitmojis'') @ lit '': ['' @ [0x0A]
       @ lit ''        {'' @ [0x0A]
       @ lit ''            '' @ quoted (lit ''emoji'') @ lit '': '' @ quoted [0x1F600]
           @ lit '','' @ [0x0A]
       @ lit ''            '' @ quoted (lit ''entity'') @ lit '': '' @ quoted (lit ''&#x1F600;'')
           @ lit '','' @ [0x0A]
       @ lit ''            '' @ quoted (lit ''code'') @ lit '': '' @ quoted (lit '':grinning_face:'')
           @ lit '','' @ [0x0A]
       @ lit ''            '' @ quoted (lit ''description'') @ lit '': ''
           @ quoted (lit ''Grinning Face'') @ lit '','' @ [0x0A]
       @ lit ''            '' @ quoted (lit ''name'') @ lit '': '' @ quoted (lit ''grinning_face'')
           @ lit '','' @ [0x0A]
       @ lit ''            '' @ quoted (lit ''semver'') @ lit '': null'' @ [0x0A]
       @ lit ''        }'' @ [0x0A]
       @ lit ''    ]'' @ [0x0A]
       @ lit ''}''))"
proof -
  have items: "iterencode sample_builtins False (Some 4) 1 (PList [grinning_mapped])
     = lit ''['' @ [0x0A]
       @ lit ''        {'' @ [0x0A]
       @ lit ''            '' @ quoted (lit ''emoji'') @ lit '': '' @ quoted [0x1F600]
           @ lit '','' @ [0x0A]
       @ lit ''            '' @ quoted (lit ''entity'') @ lit '': '' @ quoted (lit ''&#x1F600;'')
           @ lit '','' @ [0x0A]
       @ lit ''            '' @ quoted (lit ''code'') @ lit '': '' @ quoted (lit '':grinning_face:'')
           @ lit '','' @ [0x0A]
       @ lit ''            '' @ quoted (lit ''description'') @ lit '': ''
           @ quoted (lit ''Grinning Face'') @ lit '','' @ [0x0A]
       @ lit ''            '' @ quoted (lit ''name'') @ lit '': '' @ quoted (lit ''grinning_face'')
           @ lit '','' @ [0x0A]
       @ lit ''            '' @ quoted (lit ''semver'') @ lit '': null'' @ [0x0A]
       @ lit ''        }'' @ [0x0A]
       @ lit ''    ]''"
    by (simp add: grinning_mapped_def newline_indent_def item_separator_def
        encode_basestring_def quoted_def spaces) (simp add: lit_def escape_char_def)
  have can: "writable world_with_output (lit ''emojis.json'')"
    by (simp add: world_with_output_def)
  have enc: "utf8_encodable
      (json_dumps sample_builtins False (Some 4) (output_document [grinning_mapped]))"
    unfolding document_text items
    by (simp add: utf8_encodable_def quoted_def lit_def)
  have old: "files world_with_output (lit ''emojis.json'') = Some (Text (lit ''old''))"
    by (simp add: world_with_output_def)
  from save_to_json_writes_document[OF can enc]
  have "files (snd (save_to_json sample_builtins [grinning_mapped] (lit ''emojis.json'')
                 world_with_output)) (lit ''emojis.json'')
     = Some (Text (lit ''{'' @ [0x0A]
         @ lit ''    '' @ quoted (lit ''$schema'') @ lit '': ''
            @ quoted (lit ''https://gitmoji.dev/api/gitmojis/schema'') @ lit '','' @ [0x0A]
         @ lit ''    '' @ quoted (lit ''gitmojis'') @ lit '': ''
            @ iterencode sample_builtins False (Some 4) 1 (PList [grinning_mapped]) @ [0x0A]
         @ lit ''}''))"
    by (auto simp: logging_info_def)
  then have "files (snd (save_to_json sample_builtins [grinning_mapped] (lit ''emojis.json'')
                 world_with_output)) (lit ''emojis.json'')
     = Some (Text (lit ''{'' @ [0x0A]
         @ lit ''    '' @ quoted (lit ''$schema'') @ lit '': ''
            @ quoted (lit ''https://gitmoji.dev/api/gitmojis/schema'') @ lit '','' @ [0x0A]
         @ lit ''    '' @ quoted (lit ''gitmojis'') @ lit '': ''
            @ (lit ''['' @ [0x0A]
       @ lit ''        {'' @ [0x0A]
       @ lit ''            '' @ quoted (lit ''emoji'') @ lit '': '' @ quoted [0x1F600]
           @ lit '','' @ [0x0A]
       @ lit ''            '' @ quoted (lit ''entity'') @ lit '': '' @ quoted (lit ''&#x1F600;'')
           @ lit '','' @ [0x0A]
       @ lit ''            '' @ quoted (lit ''code'') @ lit '': '' @ quoted (lit '':grinning_face:'')
           @ lit '','' @ [0x0A]
       @ lit ''            '' @ quoted (lit ''description'') @ lit '': ''
           @ quoted (lit ''Grinning Face'') @ lit '','' @ [0x0A]
       @ lit ''            '' @ quoted (lit ''name'') @ lit '': '' @ quoted (lit ''grinning_face'')
           @ lit '','' @ [0x0A]
       @ lit ''            '' @ quoted (lit ''semver'') @ lit '': null'' @ [0x0A]
       @ lit ''        }'' @ [0x0A]
       @ lit ''    ]'') @ [0x0A]
         @ lit ''}''))"
    by (simp only: items)
  then have "files (snd (save_to_json sample_builtins [grinning_mapped] (lit ''emojis.json'')
                 world_with_output)) (lit ''emojis.json'')
     = Some (Text (
         lit ''{'' @ [0x0A]
       @ lit ''    '' @ quoted (lit ''$schema'') @ lit '': ''
           @ quoted (lit ''https://gitmoji.dev/api/gitmojis/schema'') @ lit '','' @ [0x0A]
       @ lit ''    '' @ quoted (lit ''gitmojis'') @ lit '': ['' @ [0x0A]
       @ lit ''        {'' @ [0x0A]
       @ lit ''            '' @ quoted (lit ''emoji'') @ lit '': '' @ quoted [0x1F600]
           @ lit '','' @ [0x0A]
       @ lit ''            '' @ quoted (lit ''entity'') @ lit '': '' @ quoted (lit ''&#x1F600;'')
           @ lit '','' @ [0x0A]
       @ lit ''            '' @ quoted (lit ''code'') @ lit '': '' @ quoted (lit '':grinning_face:'')
           @ lit '','' @ [0x0A]
       @ lit ''            '' @ quoted (lit ''description'') @ lit '': ''
           @ quoted (lit ''Grinning Face'') @ lit '','' @ [0x0A]
       @ lit ''            '' @ quoted (lit ''name'') @ lit '': '' @ quoted (lit ''grinning_face'')
           @ lit '','' @ [0x0A]
       @ lit ''            '' @ quoted (lit ''semver'') @ lit '': null'' @ [0x0A]
       @ lit ''        }'' @ [0x0A]
       @ lit ''    ]'' @ [0x0A]
       @ lit ''}''))"
    by (simp add: lit_def)
  with can enc old show ?thesis by (simp only: simp_thms)
qed

end
